theory Spec2Isabelle
  imports Complex_Main "HOL-Library.Word" "HOL-Library.Multiset"
begin

section \<open>JavaScript values\<close>

text \<open>
  A JavaScript string is a sequence of UTF-16 code units: \<^verbatim>\<open>s.length\<close> counts code
  units and \<^verbatim>\<open>s.substring\<close> cuts between them. Strings are therefore lists of 16-bit
  words, and "character" below always means one code unit.
\<close>

type_synonym jsstring = "16 word list"

definition str :: "string \<Rightarrow> jsstring" where
  "str s = map (\<lambda>c. word_of_nat (of_char c)) s"

text \<open>
  \<^verbatim>\<open>String.prototype.substring(indexStart, indexEnd)\<close>: both indices are clamped to
  \<open>[0, length]\<close> and swapped when the first exceeds the second.
\<close>

definition substring :: "jsstring \<Rightarrow> int \<Rightarrow> int \<Rightarrow> jsstring" where
  "substring s indexStart indexEnd =
     (let len = int (length s);
          a = min (max indexStart 0) len;
          b = min (max indexEnd 0) len;
          lo = min a b;
          hi = max a b
      in take (nat (hi - lo)) (drop (nat lo) s))"

definition concat_str :: "jsstring \<Rightarrow> jsstring \<Rightarrow> jsstring" where
  "concat_str s t = s @ t"

text \<open>
  A request body is what the JSON parser hands to the handler. A JSON number is a
  double; \<^verbatim>\<open>JSON.parse\<close> never yields NaN, and both zeros are \<open>Finite 0\<close>.
  An absent body, and a property that an object does not have, is \<^verbatim>\<open>undefined\<close>:
  the \<open>None\<close> of \<open>json option\<close>.
\<close>

datatype number = Finite rat | PosInfinity | NegInfinity

datatype json =
    JNull
  | JBool bool
  | JNumber number
  | JString jsstring
  | JArray "json list"
  | JObject "(jsstring \<times> json) list"

text \<open>
  Property access \<^verbatim>\<open>data[key]\<close> on a parsed object. \<open>JObject\<close> lists the properties
  of the object; the value of a key is that of its first entry.
\<close>

definition property :: "(jsstring \<times> json) list \<Rightarrow> string \<Rightarrow> json option" where
  "property kvs key = map_of kvs (str key)"

text \<open>\<^verbatim>\<open>Boolean(x)\<close>, the truthiness of a value.\<close>

fun Boolean :: "json option \<Rightarrow> bool" where
  "Boolean None = False"
| "Boolean (Some JNull) = False"
| "Boolean (Some (JBool b)) = b"
| "Boolean (Some (JNumber n)) = (n \<noteq> Finite 0)"
| "Boolean (Some (JString s)) = (s \<noteq> [])"
| "Boolean (Some (JArray xs)) = True"
| "Boolean (Some (JObject kvs)) = True"

section \<open>Errors and responses\<close>

datatype zod_issue = invalid_type "string list" | invalid_string "string list"

datatype error = ZodError "zod_issue list" | NotFoundError | UniqueConstraintError

text \<open>
  What a route handler does with a request: it throws (nothing in the handlers catches),
  it calls \<^verbatim>\<open>reply.status(n).send(payload)\<close> (\<open>None\<close> is \<^verbatim>\<open>send()\<close>, an empty
  body), or it returns a value for the framework to serialise.
\<close>

datatype 'a response = Threw error | Sent nat "'a option" | Returned 'a

section \<open>The Memory table and the persistence client\<close>

text \<open>
  Modelled from the spec: the Memory entity of section 3 (the schema file is not part of
  the sources): identifier, content, cover URL, visibility flag, owner, creation time.
\<close>

record memory =
  id' :: jsstring
  content :: jsstring
  coverUrl :: jsstring
  isPublic :: bool
  userId :: jsstring
  createdAt :: int

datatype store_call =
    FindMany
  | FindUniqueOrThrow jsstring
  | Create
  | Update jsstring
  | Delete jsstring

text \<open>
  Modelled from the spec: the persistence client of section 6 is an external store. Here
  it is the table together with the log of the client calls made so far; the log is what
  "before any store access" is stated on.
\<close>

record store =
  rows :: "memory list"
  calls :: "store_call list"

text \<open>
  Modelled from the spec: the arguments of the client's create and update calls. A create
  call supplies the four fields that the store does not generate; an update call supplies
  any subset of the fields.
\<close>

record memory_create_input =
  create_content :: jsstring
  create_coverUrl :: jsstring
  create_isPublic :: bool
  create_userId :: jsstring

record memory_update_input =
  set_id :: "jsstring option"
  set_content :: "jsstring option"
  set_coverUrl :: "jsstring option"
  set_isPublic :: "bool option"
  set_userId :: "jsstring option"
  set_createdAt :: "int option"

definition logged :: "store_call \<Rightarrow> store \<Rightarrow> store" where
  "logged c s = s\<lparr>calls := calls s @ [c]\<rparr>"

text \<open>
  Modelled from the spec: "find-many (with filter/order)" of section 6: the rows that
  satisfy the filter, in ascending order of the key.
\<close>

definition findMany ::
  "(memory \<Rightarrow> bool) \<Rightarrow> (memory \<Rightarrow> 'k::linorder) \<Rightarrow> store \<Rightarrow> memory list \<times> store" where
  "findMany wh orderBy s = (sort_key orderBy (filter wh (rows s)), logged FindMany s)"

text \<open>
  Modelled from the spec: "find-by-id (with not-found signaling)" of section 6.
\<close>

definition findUniqueOrThrow :: "jsstring \<Rightarrow> store \<Rightarrow> (error + memory) \<times> store" where
  "findUniqueOrThrow i s =
     (case find (\<lambda>m. id' m = i) (rows s) of
        None \<Rightarrow> (Inl NotFoundError, logged (FindUniqueOrThrow i) s)
      | Some m \<Rightarrow> (Inr m, logged (FindUniqueOrThrow i) s))"

text \<open>
  Modelled from the spec: "create" of section 6. The identifier is "generated by the store
  on creation" and so is the timestamp; both are inputs here. The identifier is the
  primary key of the table: a row that would repeat one is refused.
\<close>

definition create ::
  "memory_create_input \<Rightarrow> jsstring \<Rightarrow> int \<Rightarrow> store \<Rightarrow> (error + memory) \<times> store" where
  "create d newId now s =
     (if newId \<in> set (map id' (rows s)) then (Inl UniqueConstraintError, logged Create s)
      else
        (let m = \<lparr>id' = newId, content = create_content d, coverUrl = create_coverUrl d,
                  isPublic = create_isPublic d, userId = create_userId d, createdAt = now\<rparr>
         in (Inr m, logged Create (s\<lparr>rows := rows s @ [m]\<rparr>))))"

text \<open>
  Modelled from the spec: "update" of section 6: the supplied fields replace those of the
  row with the given identifier, the other fields and the other rows stay; a missing row
  is an error.
\<close>

definition apply_update :: "memory_update_input \<Rightarrow> memory \<Rightarrow> memory" where
  "apply_update d m =
     \<lparr>id' = (case set_id d of None \<Rightarrow> id' m | Some v \<Rightarrow> v),
      content = (case set_content d of None \<Rightarrow> content m | Some v \<Rightarrow> v),
      coverUrl = (case set_coverUrl d of None \<Rightarrow> coverUrl m | Some v \<Rightarrow> v),
      isPublic = (case set_isPublic d of None \<Rightarrow> isPublic m | Some v \<Rightarrow> v),
      userId = (case set_userId d of None \<Rightarrow> userId m | Some v \<Rightarrow> v),
      createdAt = (case set_createdAt d of None \<Rightarrow> createdAt m | Some v \<Rightarrow> v)\<rparr>"

definition update ::
  "jsstring \<Rightarrow> memory_update_input \<Rightarrow> store \<Rightarrow> (error + memory) \<times> store" where
  "update i d s =
     (case find (\<lambda>m. id' m = i) (rows s) of
        None \<Rightarrow> (Inl NotFoundError, logged (Update i) s)
      | Some m \<Rightarrow>
          (Inr (apply_update d m),
           logged (Update i)
             (s\<lparr>rows := map (\<lambda>r. if id' r = i then apply_update d r else r) (rows s)\<rparr>)))"

text \<open>
  Modelled from the spec: "delete" of section 6: the row with the given identifier is
  removed; a missing row is an error.
\<close>

definition delete :: "jsstring \<Rightarrow> store \<Rightarrow> (error + memory) \<times> store" where
  "delete i s =
     (case find (\<lambda>m. id' m = i) (rows s) of
        None \<Rightarrow> (Inl NotFoundError, logged (Delete i) s)
      | Some m \<Rightarrow> (Inr m, logged (Delete i) (s\<lparr>rows := filter (\<lambda>r. id' r \<noteq> i) (rows s)\<rparr>)))"

section \<open>Request validation\<close>

text \<open>
  \<^verbatim>\<open>z.object({ id: z.string().uuid() })\<close> on the route parameters. The router always
  supplies the path segment as a string, so only the format check can fail. The format
  test of the validation library is the parameter \<open>uuid\<close>.
\<close>

definition paramsSchema :: "(jsstring \<Rightarrow> bool) \<Rightarrow> jsstring \<Rightarrow> error + jsstring" where
  "paramsSchema uuid i = (if uuid i then Inr i else Inl (ZodError [invalid_string [''id'']]))"

text \<open>\<^verbatim>\<open>z.string()\<close>: the value must have type string.\<close>

fun z_string :: "string list \<Rightarrow> json option \<Rightarrow> zod_issue list + jsstring" where
  "z_string path (Some (JString s)) = Inr s"
| "z_string path v = Inl [invalid_type path]"

text \<open>
  \<^verbatim>\<open>z.coerce.boolean().default(d)\<close>: \<^verbatim>\<open>undefined\<close> is replaced by the default, then
  the value is coerced with \<^verbatim>\<open>Boolean\<close>; this never fails.
\<close>

definition z_coerce_boolean_default :: "bool \<Rightarrow> json option \<Rightarrow> bool" where
  "z_coerce_boolean_default d v =
     (case v of None \<Rightarrow> Boolean (Some (JBool d)) | Some x \<Rightarrow> Boolean (Some x))"

text \<open>
  The body schema of POST and PUT: \<^verbatim>\<open>content\<close> and \<^verbatim>\<open>coverUrl\<close> strings,
  \<^verbatim>\<open>isPublic\<close> coerced with default false. Anything but an object is rejected; unknown
  keys are dropped; the issues of all fields are collected.
\<close>

definition bodySchema :: "json option \<Rightarrow> error + (jsstring \<times> jsstring \<times> bool)" where
  "bodySchema body =
     (case body of
        Some (JObject kvs) \<Rightarrow>
          (let isPublic_in = z_coerce_boolean_default False (property kvs ''isPublic'')
           in case (z_string [''content''] (property kvs ''content''),
                    z_string [''coverUrl''] (property kvs ''coverUrl'')) of
                (Inr content_in, Inr coverUrl_in) \<Rightarrow> Inr (content_in, coverUrl_in, isPublic_in)
              | (Inl e1, Inr coverUrl_in) \<Rightarrow> Inl (ZodError e1)
              | (Inr content_in, Inl e2) \<Rightarrow> Inl (ZodError e2)
              | (Inl e1, Inl e2) \<Rightarrow> Inl (ZodError (e1 @ e2)))
      | _ \<Rightarrow> Inl (ZodError [invalid_type []]))"

section \<open>The route handlers\<close>

text \<open>
  Every handler runs after the \<^verbatim>\<open>preHandler\<close> hook has verified the token; \<open>sub\<close> is
  \<^verbatim>\<open>req.user.sub\<close>, the subject of the verified token.
\<close>

record summary =
  summary_id :: jsstring
  summary_coverUrl :: jsstring
  excerpt :: jsstring

definition to_summary :: "memory \<Rightarrow> summary" where
  "to_summary memory =
     \<lparr>summary_id = id' memory,
      summary_coverUrl = coverUrl memory,
      excerpt =
        (if int (length (content memory)) > 115
         then concat_str (substring (content memory) 0 115) (str ''...'')
         else content memory)\<rparr>"

text \<open>GET /memories\<close>

definition get_memories :: "store \<Rightarrow> jsstring \<Rightarrow> summary list response \<times> store" where
  "get_memories st sub =
     (case findMany (\<lambda>m. userId m = sub) createdAt st of
        (memories, st1) \<Rightarrow> (Returned (map to_summary memories), st1))"

text \<open>GET /memories/:id\<close>

definition get_memories_id ::
  "(jsstring \<Rightarrow> bool) \<Rightarrow> store \<Rightarrow> jsstring \<Rightarrow> jsstring \<Rightarrow> memory response \<times> store" where
  "get_memories_id uuid st sub param =
     (case paramsSchema uuid param of
        Inl e \<Rightarrow> (Threw e, st)
      | Inr i \<Rightarrow>
          (case findUniqueOrThrow i st of
             (Inl e, st1) \<Rightarrow> (Threw e, st1)
           | (Inr memory, st1) \<Rightarrow>
               if \<not> isPublic memory \<and> userId memory \<noteq> sub then (Sent 401 None, st1)
               else (Returned memory, st1)))"

text \<open>POST /memories\<close>

definition post_memories ::
  "store \<Rightarrow> jsstring \<Rightarrow> json option \<Rightarrow> jsstring \<Rightarrow> int \<Rightarrow> memory response \<times> store" where
  "post_memories st sub body newId now =
     (case bodySchema body of
        Inl e \<Rightarrow> (Threw e, st)
      | Inr (content_in, coverUrl_in, isPublic_in) \<Rightarrow>
          (case create \<lparr>create_content = content_in, create_coverUrl = coverUrl_in,
                        create_isPublic = isPublic_in, create_userId = sub\<rparr> newId now st of
             (Inl e, st1) \<Rightarrow> (Threw e, st1)
           | (Inr memory, st1) \<Rightarrow> (Returned memory, st1)))"

text \<open>PUT /memories/:id\<close>

definition put_memories_id ::
  "(jsstring \<Rightarrow> bool) \<Rightarrow> store \<Rightarrow> jsstring \<Rightarrow> jsstring \<Rightarrow> json option
     \<Rightarrow> memory response \<times> store" where
  "put_memories_id uuid st sub param body =
     (case paramsSchema uuid param of
        Inl e \<Rightarrow> (Threw e, st)
      | Inr i \<Rightarrow>
          (case bodySchema body of
             Inl e \<Rightarrow> (Threw e, st)
           | Inr (content_in, coverUrl_in, isPublic_in) \<Rightarrow>
               (case findUniqueOrThrow i st of
                  (Inl e, st1) \<Rightarrow> (Threw e, st1)
                | (Inr memory, st1) \<Rightarrow>
                    if userId memory \<noteq> sub then (Sent 401 None, st1)
                    else
                      (case update i \<lparr>set_id = None, set_content = Some content_in,
                                      set_coverUrl = Some coverUrl_in,
                                      set_isPublic = Some isPublic_in, set_userId = None,
                                      set_createdAt = None\<rparr> st1 of
                         (Inl e, st2) \<Rightarrow> (Threw e, st2)
                       | (Inr memory2, st2) \<Rightarrow> (Returned memory2, st2)))))"

text \<open>DELETE /memories/:id\<close>

definition delete_memories_id ::
  "(jsstring \<Rightarrow> bool) \<Rightarrow> store \<Rightarrow> jsstring \<Rightarrow> jsstring \<Rightarrow> unit response \<times> store" where
  "delete_memories_id uuid st sub param =
     (case paramsSchema uuid param of
        Inl e \<Rightarrow> (Threw e, st)
      | Inr i \<Rightarrow>
          (case findUniqueOrThrow i st of
             (Inl e, st1) \<Rightarrow> (Threw e, st1)
           | (Inr memory, st1) \<Rightarrow>
               if userId memory \<noteq> sub then (Sent 401 None, st1)
               else
                 (case delete i st1 of
                    (Inl e, st2) \<Rightarrow> (Threw e, st2)
                  | (Inr _, st2) \<Rightarrow> (Returned (), st2))))"

section \<open>Observations on a run\<close>

text \<open>The client calls that a handler made: what it appended to the log.\<close>

definition new_calls :: "store \<Rightarrow> store \<Rightarrow> store_call list" where
  "new_calls st st' = drop (length (calls st)) (calls st')"

text \<open>
  Modelled from the spec: the status of the HTTP response that the framework sends for
  what a handler did. Section 7: an error that is thrown and not caught "propagates as a
  generic failure rather than a clean not-found response". No handler catches, the server
  installs no error handler, and neither kind of thrown error carries a status of its
  own, so every throw is answered with the server error 500. \<^verbatim>\<open>reply.status(n)\<close> sets
  the status \<open>n\<close>; a returned value is sent with 200.
\<close>

definition status_code :: "'a response \<Rightarrow> nat" where
  "status_code r = (case r of Threw e \<Rightarrow> 500 | Sent n payload \<Rightarrow> n | Returned v \<Rightarrow> 200)"

section \<open>A concrete identifier format and a concrete table\<close>

text \<open>
  Modelled from the spec: "a syntactically valid unique-identifier string", taken as the
  canonical textual form of a UUID: 36 characters, hexadecimal digits in groups of
  8-4-4-4-12 separated by hyphens. It instantiates the format test at concrete inputs.
\<close>

definition is_hex :: "16 word \<Rightarrow> bool" where
  "is_hex c = ((0x30 \<le> c \<and> c \<le> 0x39) \<or> (0x41 \<le> c \<and> c \<le> 0x46) \<or> (0x61 \<le> c \<and> c \<le> 0x66))"

fun hex_groups :: "nat list \<Rightarrow> jsstring \<Rightarrow> bool" where
  "hex_groups [] s = (s = [])"
| "hex_groups [n] s = (length s = n \<and> list_all is_hex s)"
| "hex_groups (n # ns) s =
     (list_all is_hex (take n s) \<and> length (take n s) = n \<and>
      (case drop n s of [] \<Rightarrow> False | c # rest \<Rightarrow> c = 0x2D \<and> hex_groups ns rest))"

definition is_uuid :: "jsstring \<Rightarrow> bool" where
  "is_uuid s = hex_groups [8, 4, 4, 4, 12] s"

definition alice :: jsstring where
  "alice = str ''alice''"

definition bob :: jsstring where
  "bob = str ''bob''"

definition id_a :: jsstring where
  "id_a = str ''123e4567-e89b-12d3-a456-426614174000''"

definition id_b :: jsstring where
  "id_b = str ''9b2f0c1e-5d6a-4f3b-8c7d-0a1b2c3d4e5f''"

definition id_c :: jsstring where
  "id_c = str ''00000000-0000-4000-8000-00000000000c''"

definition id_new :: jsstring where
  "id_new = str ''ffffffff-ffff-4fff-8fff-ffffffffffff''"

definition long_text :: jsstring where
  "long_text = replicate 116 0x61"

definition memory_a :: memory where
  "memory_a = \<lparr>id' = id_a, content = str ''hello'', coverUrl = str ''http://x/y.png'',
                isPublic = False, userId = alice, createdAt = 2000\<rparr>"

definition memory_b :: memory where
  "memory_b = \<lparr>id' = id_b, content = str ''shared'', coverUrl = str ''http://x/b.png'',
                isPublic = True, userId = bob, createdAt = 1500\<rparr>"

definition memory_c :: memory where
  "memory_c = \<lparr>id' = id_c, content = long_text, coverUrl = str ''http://x/c.png'',
                isPublic = True, userId = alice, createdAt = 1000\<rparr>"

definition store0 :: store where
  "store0 = \<lparr>rows = [memory_a, memory_b, memory_c], calls = []\<rparr>"

definition fields_min :: "(jsstring \<times> json) list" where
  "fields_min = [(str ''content'', JString (str ''hello'')),
                 (str ''coverUrl'', JString (str ''http://x/y.png''))]"

definition fields_false_string :: "(jsstring \<times> json) list" where
  "fields_false_string = [(str ''content'', JString (str ''hello'')),
                          (str ''coverUrl'', JString (str ''http://x/y.png'')),
                          (str ''isPublic'', JString (str ''false''))]"

definition fields_no_cover :: "(jsstring \<times> json) list" where
  "fields_no_cover = [(str ''content'', JString (str ''hello''))]"

definition body_min :: json where
  "body_min = JObject fields_min"

section \<open>Basic facts about the model\<close>

lemma substring_prefix: "0 \<le> n \<Longrightarrow> substring s 0 n = take (nat n) s"
  by (auto simp: substring_def Let_def min_def max_def)

lemma z_coerce_boolean_default_False: "z_coerce_boolean_default False v = Boolean v"
  by (cases v) (simp_all add: z_coerce_boolean_default_def)

lemma z_string_Inr_iff: "z_string path v = Inr s \<longleftrightarrow> v = Some (JString s)"
  by (cases "(path, v)" rule: z_string.cases) simp_all

lemma bodySchema_object:
  assumes "property kvs ''content'' = Some (JString c)"
    and "property kvs ''coverUrl'' = Some (JString u)"
  shows "bodySchema (Some (JObject kvs)) = Inr (c, u, Boolean (property kvs ''isPublic''))"
  using assms by (simp add: bodySchema_def z_coerce_boolean_default_False)

lemma bodySchema_Inr_iff:
  "bodySchema body = Inr (c, u, p) \<longleftrightarrow>
     (\<exists>kvs. body = Some (JObject kvs) \<and> property kvs ''content'' = Some (JString c) \<and>
            property kvs ''coverUrl'' = Some (JString u) \<and>
            p = Boolean (property kvs ''isPublic''))"
  by (auto simp: bodySchema_def z_coerce_boolean_default_False z_string_Inr_iff Let_def
      split: option.splits json.splits sum.splits)

lemma bodySchema_Inl_ZodError: "bodySchema body = Inl e \<Longrightarrow> \<exists>issues. e = ZodError issues"
  by (auto simp: bodySchema_def Let_def split: option.splits json.splits sum.splits)

lemma Boolean_False_iff:
  "\<not> Boolean v \<longleftrightarrow>
     v \<in> {None, Some (JBool False), Some (JNumber (Finite 0)), Some (JString []), Some JNull}"
  by (cases v rule: Boolean.cases) auto

lemma find_append_fresh:
  "\<forall>x \<in> set xs. \<not> P x \<Longrightarrow> P y \<Longrightarrow> find P (xs @ [y]) = Some y"
  by (induction xs) auto

lemma find_Some_mem: "find P xs = Some x \<Longrightarrow> x \<in> set xs \<and> P x"
  by (induction xs) (auto split: if_splits)

lemma rows_logged: "rows (logged c st) = rows st"
  by (simp add: logged_def)

lemma calls_logged: "calls (logged c st) = calls st @ [c]"
  by (simp add: logged_def)

lemma new_calls_logged: "new_calls st (logged c st) = [c]"
  by (simp add: new_calls_def logged_def)

lemma new_calls_same: "new_calls st st = []"
  by (simp add: new_calls_def)

lemma findUniqueOrThrow_Some:
  "find (\<lambda>m. id' m = i) (rows st) = Some m \<Longrightarrow>
   findUniqueOrThrow i st = (Inr m, logged (FindUniqueOrThrow i) st)"
  by (simp add: findUniqueOrThrow_def)

lemma findUniqueOrThrow_None:
  "find (\<lambda>m. id' m = i) (rows st) = None \<Longrightarrow>
   findUniqueOrThrow i st = (Inl NotFoundError, logged (FindUniqueOrThrow i) st)"
  by (simp add: findUniqueOrThrow_def)

section \<open>What each handler does on each path\<close>

lemma post_memories_created:
  assumes "property kvs ''content'' = Some (JString c)"
    and "property kvs ''coverUrl'' = Some (JString u)"
    and "newId \<notin> set (map id' (rows st))"
  shows "post_memories st sub (Some (JObject kvs)) newId now =
           (Returned \<lparr>id' = newId, content = c, coverUrl = u,
                      isPublic = Boolean (property kvs ''isPublic''), userId = sub,
                      createdAt = now\<rparr>,
            logged Create (st\<lparr>rows := rows st @
              [\<lparr>id' = newId, content = c, coverUrl = u,
                isPublic = Boolean (property kvs ''isPublic''), userId = sub,
                createdAt = now\<rparr>]\<rparr>))"
  using assms(3)
  by (simp add: post_memories_def bodySchema_object [OF assms(1,2)] create_def Let_def)

lemma post_memories_invalid_body:
  "bodySchema body = Inl e \<Longrightarrow> post_memories st sub body newId now = (Threw e, st)"
  by (simp add: post_memories_def)

lemma put_memories_id_updated:
  assumes "uuid i" and "bodySchema body = Inr (c, u, p)"
    and "find (\<lambda>m. id' m = i) (rows st) = Some m" and "userId m = sub"
  shows "put_memories_id uuid st sub i body =
           (Returned (m\<lparr>content := c, coverUrl := u, isPublic := p\<rparr>),
            logged (Update i) ((logged (FindUniqueOrThrow i) st)
              \<lparr>rows := map (\<lambda>r. if id' r = i then r\<lparr>content := c, coverUrl := u, isPublic := p\<rparr>
                                else r) (rows st)\<rparr>))"
proof -
  have upd: "apply_update \<lparr>set_id = None, set_content = Some c, set_coverUrl = Some u,
               set_isPublic = Some p, set_userId = None, set_createdAt = None\<rparr> r =
             r\<lparr>content := c, coverUrl := u, isPublic := p\<rparr>" for r
    by (simp add: apply_update_def)
  show ?thesis
    using assms
    by (simp add: put_memories_id_def paramsSchema_def findUniqueOrThrow_Some update_def
        rows_logged upd cong: if_cong)
qed

lemma put_memories_id_rejected:
  assumes "uuid i" and "bodySchema body = Inr b"
    and "find (\<lambda>m. id' m = i) (rows st) = Some m" and "userId m \<noteq> sub"
  shows "put_memories_id uuid st sub i body = (Sent 401 None, logged (FindUniqueOrThrow i) st)"
  using assms
  by (cases b) (simp add: put_memories_id_def paramsSchema_def findUniqueOrThrow_Some)

lemma put_memories_id_not_found:
  assumes "uuid i" and "bodySchema body = Inr b"
    and "find (\<lambda>m. id' m = i) (rows st) = None"
  shows "put_memories_id uuid st sub i body =
           (Threw NotFoundError, logged (FindUniqueOrThrow i) st)"
  using assms
  by (cases b) (simp add: put_memories_id_def paramsSchema_def findUniqueOrThrow_None)

lemma put_memories_id_invalid_body:
  assumes "bodySchema body = Inl e"
  shows "put_memories_id uuid st sub i body =
           (Threw (if uuid i then e else ZodError [invalid_string [''id'']]), st)"
  using assms by (simp add: put_memories_id_def paramsSchema_def)

lemma put_memories_id_invalid_id:
  "\<not> uuid i \<Longrightarrow>
   put_memories_id uuid st sub i body = (Threw (ZodError [invalid_string [''id'']]), st)"
  by (simp add: put_memories_id_def paramsSchema_def)

lemma delete_memories_id_rejected:
  assumes "uuid i" and "find (\<lambda>m. id' m = i) (rows st) = Some m" and "userId m \<noteq> sub"
  shows "delete_memories_id uuid st sub i = (Sent 401 None, logged (FindUniqueOrThrow i) st)"
  using assms by (simp add: delete_memories_id_def paramsSchema_def findUniqueOrThrow_Some)

lemma delete_memories_id_not_found:
  assumes "uuid i" and "find (\<lambda>m. id' m = i) (rows st) = None"
  shows "delete_memories_id uuid st sub i =
           (Threw NotFoundError, logged (FindUniqueOrThrow i) st)"
  using assms by (simp add: delete_memories_id_def paramsSchema_def findUniqueOrThrow_None)

lemma delete_memories_id_invalid_id:
  "\<not> uuid i \<Longrightarrow>
   delete_memories_id uuid st sub i = (Threw (ZodError [invalid_string [''id'']]), st)"
  by (simp add: delete_memories_id_def paramsSchema_def)

lemma get_memories_id_not_found:
  assumes "uuid i" and "find (\<lambda>m. id' m = i) (rows st) = None"
  shows "get_memories_id uuid st sub i =
           (Threw NotFoundError, logged (FindUniqueOrThrow i) st)"
  using assms by (simp add: get_memories_id_def paramsSchema_def findUniqueOrThrow_None)

lemma get_memories_id_invalid_id:
  "\<not> uuid i \<Longrightarrow>
   get_memories_id uuid st sub i = (Threw (ZodError [invalid_string [''id'']]), st)"
  by (simp add: get_memories_id_def paramsSchema_def)

section \<open>Authorization\<close>

text \<open>
  C1. GET /memories/:id: when the lookup finds memory \<open>m\<close>, the response is status 401
  with an empty body if \<open>m\<close> is not public and the caller is not its owner, and the full
  record \<open>m\<close> otherwise. The only store call made is the lookup.
\<close>

theorem get_memories_id_authorization:
  assumes "uuid i" and "find (\<lambda>m. id' m = i) (rows st) = Some m"
  shows "get_memories_id uuid st sub i =
           (if \<not> isPublic m \<and> userId m \<noteq> sub then Sent 401 None else Returned m,
            logged (FindUniqueOrThrow i) st)"
  using assms by (simp add: get_memories_id_def paramsSchema_def findUniqueOrThrow_Some)

theorem get_memories_id_authorization_witness:
  "is_uuid id_a \<and> find (\<lambda>m. id' m = id_a) (rows store0) = Some memory_a \<and>
   get_memories_id is_uuid store0 bob id_a =
     (Sent 401 None, logged (FindUniqueOrThrow id_a) store0) \<and>
   get_memories_id is_uuid store0 alice id_a =
     (Returned memory_a, logged (FindUniqueOrThrow id_a) store0)"
proof -
  have u: "is_uuid id_a" by code_simp
  have f: "find (\<lambda>m. id' m = id_a) (rows store0) = Some memory_a" by code_simp
  have p: "\<not> isPublic memory_a" by code_simp
  have b: "userId memory_a \<noteq> bob" by code_simp
  have a: "userId memory_a = alice" by code_simp
  show ?thesis
    using get_memories_id_authorization [of is_uuid id_a store0 memory_a bob]
      get_memories_id_authorization [of is_uuid id_a store0 memory_a alice] u f p b a
    by simp
qed

text \<open>
  C2. PUT and DELETE /memories/:id on an existing memory \<open>m\<close> by a caller who is not its
  owner: DELETE, and PUT with a body that passes the body schema, answer status 401 with
  an empty body after the lookup alone; whatever the body, the table is unchanged and no
  update or delete call is made.
\<close>

theorem put_delete_owner_only:
  assumes "uuid i" and "find (\<lambda>m. id' m = i) (rows st) = Some m" and "userId m \<noteq> sub"
  shows "delete_memories_id uuid st sub i = (Sent 401 None, logged (FindUniqueOrThrow i) st) \<and>
         (\<forall>b. bodySchema body = Inr b \<longrightarrow>
            put_memories_id uuid st sub i body =
              (Sent 401 None, logged (FindUniqueOrThrow i) st)) \<and>
         rows (snd (delete_memories_id uuid st sub i)) = rows st \<and>
         rows (snd (put_memories_id uuid st sub i body)) = rows st \<and>
         Delete i \<notin> set (new_calls st (snd (delete_memories_id uuid st sub i))) \<and>
         Update i \<notin> set (new_calls st (snd (put_memories_id uuid st sub i body)))"
proof -
  have d: "delete_memories_id uuid st sub i = (Sent 401 None, logged (FindUniqueOrThrow i) st)"
    using assms by (simp add: delete_memories_id_rejected)
  have p: "put_memories_id uuid st sub i body = (Sent 401 None, logged (FindUniqueOrThrow i) st)"
    if "bodySchema body = Inr b" for b
    using assms that by (simp add: put_memories_id_rejected)
  have q: "snd (put_memories_id uuid st sub i body) = st \<or>
           snd (put_memories_id uuid st sub i body) = logged (FindUniqueOrThrow i) st"
  proof (cases "bodySchema body")
    case (Inl e)
    then show ?thesis by (simp add: put_memories_id_invalid_body)
  next
    case (Inr b)
    then show ?thesis by (simp add: p)
  qed
  from q have "rows (snd (put_memories_id uuid st sub i body)) = rows st"
    by (auto simp: rows_logged)
  moreover from q have "Update i \<notin> set (new_calls st (snd (put_memories_id uuid st sub i body)))"
    by (auto simp: new_calls_logged new_calls_same)
  ultimately show ?thesis
    using d p by (simp add: rows_logged new_calls_logged)
qed

theorem put_delete_owner_only_witness:
  "is_uuid id_a \<and> find (\<lambda>m. id' m = id_a) (rows store0) = Some memory_a \<and>
   userId memory_a \<noteq> bob \<and>
   bodySchema (Some body_min) = Inr (str ''hello'', str ''http://x/y.png'', False) \<and>
   delete_memories_id is_uuid store0 bob id_a =
     (Sent 401 None, logged (FindUniqueOrThrow id_a) store0) \<and>
   put_memories_id is_uuid store0 bob id_a (Some body_min) =
     (Sent 401 None, logged (FindUniqueOrThrow id_a) store0) \<and>
   rows (snd (delete_memories_id is_uuid store0 bob id_a)) = rows store0 \<and>
   rows (snd (put_memories_id is_uuid store0 bob id_a (Some body_min))) = rows store0"
proof -
  have u: "is_uuid id_a" by code_simp
  have f: "find (\<lambda>m. id' m = id_a) (rows store0) = Some memory_a" by code_simp
  have b: "userId memory_a \<noteq> bob" by code_simp
  have v: "bodySchema (Some body_min) = Inr (str ''hello'', str ''http://x/y.png'', False)"
    by code_simp
  show ?thesis
    using put_delete_owner_only [of is_uuid id_a store0 memory_a bob "Some body_min"] u f b v
    by blast
qed

section \<open>The list view\<close>

text \<open>
  C3. Every entry of the GET /memories response is the summary of a stored memory of the
  caller whose excerpt is the first 115 characters of the content followed by "..." when
  the content is longer than 115 characters, and the content itself otherwise.
\<close>

theorem get_memories_excerpt:
  assumes "fst (get_memories st sub) = Returned out" and "s \<in> set out"
  shows "\<exists>m \<in> set (rows st). userId m = sub \<and> summary_id s = id' m \<and>
           excerpt s = (if 115 < length (content m) then take 115 (content m) @ str ''...''
                        else content m)"
proof -
  from assms(1)
  have "out = map to_summary (sort_key createdAt (filter (\<lambda>m. userId m = sub) (rows st)))"
    by (simp add: get_memories_def findMany_def)
  with assms(2) obtain m where m: "m \<in> set (rows st)" "userId m = sub" "s = to_summary m"
    by auto
  have "excerpt (to_summary m) =
          (if 115 < length (content m) then take 115 (content m) @ str ''...'' else content m)"
    by (simp add: to_summary_def substring_prefix concat_str_def)
  moreover have "summary_id (to_summary m) = id' m"
    by (simp add: to_summary_def)
  ultimately show ?thesis using m by blast
qed

theorem get_memories_excerpt_witness:
  "fst (get_memories store0 alice) = Returned [to_summary memory_c, to_summary memory_a] \<and>
   to_summary memory_c \<in> set [to_summary memory_c, to_summary memory_a] \<and>
   excerpt (to_summary memory_c) = replicate 115 0x61 @ str ''...'' \<and>
   excerpt (to_summary memory_a) = str ''hello'' \<and>
   (\<exists>m \<in> set (rows store0). userId m = alice \<and> summary_id (to_summary memory_c) = id' m \<and>
      excerpt (to_summary memory_c) =
        (if 115 < length (content m) then take 115 (content m) @ str ''...'' else content m))"
proof -
  have r: "fst (get_memories store0 alice) = Returned [to_summary memory_c, to_summary memory_a]"
    by code_simp
  have e: "excerpt (to_summary memory_c) = replicate 115 0x61 @ str ''...''"
    by code_simp
  have e': "excerpt (to_summary memory_a) = str ''hello''"
    by code_simp
  have s: "to_summary memory_c \<in> set [to_summary memory_c, to_summary memory_a]"
    by simp
  show ?thesis
    using get_memories_excerpt [OF r s] r e e' s by blast
qed

text \<open>
  C7. GET /memories returns the summaries of exactly the stored memories whose owner is the
  caller, all of them and each as often as it is stored, in ascending order of creation
  time; a summary carries the identifier, the cover URL and the excerpt. The only store
  call is the one query.
\<close>

theorem get_memories_owned_sorted:
  "\<exists>ms. get_memories st sub = (Returned (map to_summary ms), logged FindMany st) \<and>
        mset ms = filter_mset (\<lambda>m. userId m = sub) (mset (rows st)) \<and>
        sorted (map createdAt ms) \<and>
        map summary_id (map to_summary ms) = map id' ms \<and>
        map summary_coverUrl (map to_summary ms) = map coverUrl ms"
proof -
  let ?ms = "sort_key createdAt (filter (\<lambda>m. userId m = sub) (rows st))"
  have "get_memories st sub = (Returned (map to_summary ?ms), logged FindMany st)"
    by (simp add: get_memories_def findMany_def)
  moreover have "mset ?ms = filter_mset (\<lambda>m. userId m = sub) (mset (rows st))"
    by simp
  moreover have "sorted (map createdAt ?ms)"
    by simp
  moreover have "map summary_id (map to_summary ?ms) = map id' ?ms"
    by (simp add: to_summary_def)
  moreover have "map summary_coverUrl (map to_summary ?ms) = map coverUrl ?ms"
    by (simp add: to_summary_def)
  ultimately show ?thesis by blast
qed

theorem get_memories_owned_sorted_witness:
  "get_memories store0 alice =
     (Returned [to_summary memory_c, to_summary memory_a], logged FindMany store0) \<and>
   (\<exists>ms. get_memories store0 alice = (Returned (map to_summary ms), logged FindMany store0) \<and>
         mset ms = filter_mset (\<lambda>m. userId m = alice) (mset (rows store0)) \<and>
         sorted (map createdAt ms) \<and>
         map summary_id (map to_summary ms) = map id' ms \<and>
         map summary_coverUrl (map to_summary ms) = map coverUrl ms)"
proof -
  have "get_memories store0 alice =
          (Returned [to_summary memory_c, to_summary memory_a], logged FindMany store0)"
    by code_simp
  then show ?thesis
    using get_memories_owned_sorted [of store0 alice] by simp
qed

section \<open>The visibility flag of a request body\<close>

text \<open>
  C4. A body with string \<open>content\<close> and \<open>coverUrl\<close> and no \<open>isPublic\<close>: POST (the
  store generating a fresh identifier) stores and returns a record that is not public;
  PUT by the owner of an existing memory stores and returns a record that is not public,
  whatever the flag of the memory was before.
\<close>

theorem isPublic_omitted_is_false:
  assumes "property kvs ''content'' = Some (JString c)"
    and "property kvs ''coverUrl'' = Some (JString u)"
    and "property kvs ''isPublic'' = None"
  shows "(newId \<notin> set (map id' (rows st)) \<longrightarrow>
           (\<exists>M st1. post_memories st sub (Some (JObject kvs)) newId now = (Returned M, st1) \<and>
              id' M = newId \<and> M \<in> set (rows st1) \<and> isPublic M = False)) \<and>
         (uuid i \<and> find (\<lambda>m. id' m = i) (rows st) = Some m \<and> userId m = sub \<longrightarrow>
           (\<exists>M st2. put_memories_id uuid st sub i (Some (JObject kvs)) = (Returned M, st2) \<and>
              id' M = i \<and> M \<in> set (rows st2) \<and> isPublic M = False \<and>
              (\<forall>r \<in> set (rows st2). id' r = i \<longrightarrow> isPublic r = False)))"
proof (intro conjI impI)
  assume "newId \<notin> set (map id' (rows st))"
  from post_memories_created [OF assms(1,2) this, of sub now]
  show "\<exists>M st1. post_memories st sub (Some (JObject kvs)) newId now = (Returned M, st1) \<and>
          id' M = newId \<and> M \<in> set (rows st1) \<and> isPublic M = False"
    using assms(3) by (simp add: rows_logged)
next
  assume a: "uuid i \<and> find (\<lambda>m. id' m = i) (rows st) = Some m \<and> userId m = sub"
  have b: "bodySchema (Some (JObject kvs)) = Inr (c, u, False)"
    using bodySchema_object [OF assms(1,2)] assms(3) by simp
  from a have m: "m \<in> set (rows st)" "id' m = i"
    using find_Some_mem [of "\<lambda>m. id' m = i" "rows st" m] by simp_all
  have "put_memories_id uuid st sub i (Some (JObject kvs)) =
          (Returned (m\<lparr>content := c, coverUrl := u, isPublic := False\<rparr>),
           logged (Update i) ((logged (FindUniqueOrThrow i) st)
             \<lparr>rows := map (\<lambda>r. if id' r = i then r\<lparr>content := c, coverUrl := u, isPublic := False\<rparr>
                               else r) (rows st)\<rparr>))"
    using a b by (simp add: put_memories_id_updated)
  moreover have "m\<lparr>content := c, coverUrl := u, isPublic := False\<rparr> \<in>
      set (map (\<lambda>r. if id' r = i then r\<lparr>content := c, coverUrl := u, isPublic := False\<rparr> else r)
             (rows st))"
    using m by force
  ultimately
  show "\<exists>M st2. put_memories_id uuid st sub i (Some (JObject kvs)) = (Returned M, st2) \<and>
          id' M = i \<and> M \<in> set (rows st2) \<and> isPublic M = False \<and>
          (\<forall>r \<in> set (rows st2). id' r = i \<longrightarrow> isPublic r = False)"
    using m by (auto simp: rows_logged)
qed

theorem isPublic_omitted_is_false_witness:
  "property fields_min ''content'' = Some (JString (str ''hello'')) \<and>
   property fields_min ''coverUrl'' = Some (JString (str ''http://x/y.png'')) \<and>
   property fields_min ''isPublic'' = None \<and>
   id_new \<notin> set (map id' (rows store0)) \<and>
   is_uuid id_c \<and> find (\<lambda>m. id' m = id_c) (rows store0) = Some memory_c \<and>
   userId memory_c = alice \<and> isPublic memory_c \<and>
   (\<exists>M st1. post_memories store0 alice (Some (JObject fields_min)) id_new 3000 = (Returned M, st1) \<and>
      id' M = id_new \<and> M \<in> set (rows st1) \<and> isPublic M = False) \<and>
   (\<exists>M st2. put_memories_id is_uuid store0 alice id_c (Some (JObject fields_min)) = (Returned M, st2) \<and>
      id' M = id_c \<and> M \<in> set (rows st2) \<and> isPublic M = False)"
proof -
  have c: "property fields_min ''content'' = Some (JString (str ''hello''))" by code_simp
  have u: "property fields_min ''coverUrl'' = Some (JString (str ''http://x/y.png''))"
    by code_simp
  have p: "property fields_min ''isPublic'' = None" by code_simp
  have n: "id_new \<notin> set (map id' (rows store0))" by code_simp
  have v: "is_uuid id_c" by code_simp
  have f: "find (\<lambda>m. id' m = id_c) (rows store0) = Some memory_c" by code_simp
  have a: "userId memory_c = alice" by code_simp
  have q: "isPublic memory_c" by code_simp
  show ?thesis
    using isPublic_omitted_is_false [OF c u p, of id_new store0 alice 3000 is_uuid id_c memory_c]
      c u p n v f a q
    by blast
qed

text \<open>
  C10. The visibility flag is the truthiness of the supplied value. With string
  \<open>content\<close> and \<open>coverUrl\<close>, the record that POST creates, and the record that PUT by
  the owner stores, is public whenever \<open>isPublic\<close> is supplied as a non-empty string
  (the string "false" included), and is not public exactly when \<open>isPublic\<close> is absent
  or is one of false, 0, the empty string, null.
\<close>

theorem isPublic_is_truthiness:
  assumes "property kvs ''content'' = Some (JString c)"
    and "property kvs ''coverUrl'' = Some (JString u)"
  shows "(newId \<notin> set (map id' (rows st)) \<longrightarrow>
           (\<exists>M st1. post_memories st sub (Some (JObject kvs)) newId now = (Returned M, st1) \<and>
              id' M = newId \<and> M \<in> set (rows st1) \<and>
              (\<forall>s. property kvs ''isPublic'' = Some (JString s) \<and> s \<noteq> [] \<longrightarrow> isPublic M) \<and>
              (\<not> isPublic M \<longleftrightarrow>
                 property kvs ''isPublic'' \<in> {None, Some (JBool False), Some (JNumber (Finite 0)),
                                             Some (JString []), Some JNull}))) \<and>
         (uuid i \<and> find (\<lambda>m. id' m = i) (rows st) = Some m \<and> userId m = sub \<longrightarrow>
           (\<exists>M st2. put_memories_id uuid st sub i (Some (JObject kvs)) = (Returned M, st2) \<and>
              id' M = i \<and> M \<in> set (rows st2) \<and>
              (\<forall>s. property kvs ''isPublic'' = Some (JString s) \<and> s \<noteq> [] \<longrightarrow> isPublic M) \<and>
              (\<not> isPublic M \<longleftrightarrow>
                 property kvs ''isPublic'' \<in> {None, Some (JBool False), Some (JNumber (Finite 0)),
                                             Some (JString []), Some JNull})))"
proof (intro conjI impI)
  let ?p = "Boolean (property kvs ''isPublic'')"
  have t: "\<forall>s. property kvs ''isPublic'' = Some (JString s) \<and> s \<noteq> [] \<longrightarrow> ?p"
    by auto
  have f: "\<not> ?p \<longleftrightarrow>
             property kvs ''isPublic'' \<in> {None, Some (JBool False), Some (JNumber (Finite 0)),
                                         Some (JString []), Some JNull}"
    by (rule Boolean_False_iff)
  {
    assume "newId \<notin> set (map id' (rows st))"
    from post_memories_created [OF assms(1,2) this, of sub now]
    show "\<exists>M st1. post_memories st sub (Some (JObject kvs)) newId now = (Returned M, st1) \<and>
            id' M = newId \<and> M \<in> set (rows st1) \<and>
            (\<forall>s. property kvs ''isPublic'' = Some (JString s) \<and> s \<noteq> [] \<longrightarrow> isPublic M) \<and>
            (\<not> isPublic M \<longleftrightarrow>
               property kvs ''isPublic'' \<in> {None, Some (JBool False), Some (JNumber (Finite 0)),
                                           Some (JString []), Some JNull})"
      using t f by (auto simp: rows_logged)
  }
  {
    assume a: "uuid i \<and> find (\<lambda>m. id' m = i) (rows st) = Some m \<and> userId m = sub"
    have b: "bodySchema (Some (JObject kvs)) = Inr (c, u, ?p)"
      by (rule bodySchema_object [OF assms])
    from a have m: "m \<in> set (rows st)" "id' m = i"
      using find_Some_mem [of "\<lambda>m. id' m = i" "rows st" m] by simp_all
    have "put_memories_id uuid st sub i (Some (JObject kvs)) =
            (Returned (m\<lparr>content := c, coverUrl := u, isPublic := ?p\<rparr>),
             logged (Update i) ((logged (FindUniqueOrThrow i) st)
               \<lparr>rows := map (\<lambda>r. if id' r = i then r\<lparr>content := c, coverUrl := u, isPublic := ?p\<rparr>
                                 else r) (rows st)\<rparr>))"
      using a b by (simp add: put_memories_id_updated)
    moreover have "m\<lparr>content := c, coverUrl := u, isPublic := ?p\<rparr> \<in>
        set (map (\<lambda>r. if id' r = i then r\<lparr>content := c, coverUrl := u, isPublic := ?p\<rparr> else r)
               (rows st))"
      using m by force
    ultimately
    show "\<exists>M st2. put_memories_id uuid st sub i (Some (JObject kvs)) = (Returned M, st2) \<and>
            id' M = i \<and> M \<in> set (rows st2) \<and>
            (\<forall>s. property kvs ''isPublic'' = Some (JString s) \<and> s \<noteq> [] \<longrightarrow> isPublic M) \<and>
            (\<not> isPublic M \<longleftrightarrow>
               property kvs ''isPublic'' \<in> {None, Some (JBool False), Some (JNumber (Finite 0)),
                                           Some (JString []), Some JNull})"
      using m t f by (auto simp: rows_logged)
  }
qed

theorem isPublic_is_truthiness_witness:
  "property fields_false_string ''content'' = Some (JString (str ''hello'')) \<and>
   property fields_false_string ''coverUrl'' = Some (JString (str ''http://x/y.png'')) \<and>
   property fields_false_string ''isPublic'' = Some (JString (str ''false'')) \<and>
   str ''false'' \<noteq> [] \<and>
   id_new \<notin> set (map id' (rows store0)) \<and>
   is_uuid id_a \<and> find (\<lambda>m. id' m = id_a) (rows store0) = Some memory_a \<and>
   userId memory_a = alice \<and>
   (\<exists>M st1. post_memories store0 alice (Some (JObject fields_false_string)) id_new 3000 =
        (Returned M, st1) \<and> id' M = id_new \<and> M \<in> set (rows st1) \<and> isPublic M) \<and>
   (\<exists>M st2. put_memories_id is_uuid store0 alice id_a (Some (JObject fields_false_string)) =
        (Returned M, st2) \<and> id' M = id_a \<and> M \<in> set (rows st2) \<and> isPublic M)"
proof -
  have c: "property fields_false_string ''content'' = Some (JString (str ''hello''))"
    by code_simp
  have u: "property fields_false_string ''coverUrl'' = Some (JString (str ''http://x/y.png''))"
    by code_simp
  have p: "property fields_false_string ''isPublic'' = Some (JString (str ''false''))"
    by code_simp
  have e: "str ''false'' \<noteq> []" by code_simp
  have n: "id_new \<notin> set (map id' (rows store0))" by code_simp
  have v: "is_uuid id_a" by code_simp
  have f: "find (\<lambda>m. id' m = id_a) (rows store0) = Some memory_a" by code_simp
  have a: "userId memory_a = alice" by code_simp
  show ?thesis
    using isPublic_is_truthiness [OF c u, of id_new store0 alice 3000 is_uuid id_a memory_a]
      c u p e n v f a
    by blast
qed

section \<open>Update, lookup failure, validation, round trip\<close>

text \<open>
  C5. A PUT by the owner with a valid body returns the addressed memory with
  \<open>content\<close>, \<open>coverUrl\<close> and \<open>isPublic\<close> replaced by the body's values and with its
  identifier, owner and creation time as before. In the table every row keeps its
  position, identifier, owner and creation time; the row with the addressed identifier
  carries the three new values, and every other row is unchanged.
\<close>

theorem put_memories_id_frame:
  assumes "uuid i" and "bodySchema body = Inr (c, u, p)"
    and "find (\<lambda>m. id' m = i) (rows st) = Some m" and "userId m = sub"
  shows "\<exists>M st'. put_memories_id uuid st sub i body = (Returned M, st') \<and>
           content M = c \<and> coverUrl M = u \<and> isPublic M = p \<and>
           id' M = id' m \<and> userId M = userId m \<and> createdAt M = createdAt m \<and>
           length (rows st') = length (rows st) \<and>
           (\<forall>k < length (rows st).
              id' (rows st' ! k) = id' (rows st ! k) \<and>
              userId (rows st' ! k) = userId (rows st ! k) \<and>
              createdAt (rows st' ! k) = createdAt (rows st ! k) \<and>
              (if id' (rows st ! k) = i
               then content (rows st' ! k) = c \<and> coverUrl (rows st' ! k) = u \<and>
                    isPublic (rows st' ! k) = p
               else rows st' ! k = rows st ! k))"
proof -
  let ?f = "\<lambda>r. if id' r = i then r\<lparr>content := c, coverUrl := u, isPublic := p\<rparr> else r"
  let ?st' = "logged (Update i) ((logged (FindUniqueOrThrow i) st)\<lparr>rows := map ?f (rows st)\<rparr>)"
  have r: "put_memories_id uuid st sub i body =
             (Returned (m\<lparr>content := c, coverUrl := u, isPublic := p\<rparr>), ?st')"
    using assms by (rule put_memories_id_updated)
  have rows': "rows ?st' = map ?f (rows st)"
    by (simp add: rows_logged)
  have "\<forall>k < length (rows st).
          id' (rows ?st' ! k) = id' (rows st ! k) \<and>
          userId (rows ?st' ! k) = userId (rows st ! k) \<and>
          createdAt (rows ?st' ! k) = createdAt (rows st ! k) \<and>
          (if id' (rows st ! k) = i
           then content (rows ?st' ! k) = c \<and> coverUrl (rows ?st' ! k) = u \<and>
                isPublic (rows ?st' ! k) = p
           else rows ?st' ! k = rows st ! k)"
    unfolding rows' by simp
  moreover have "length (rows ?st') = length (rows st)"
    unfolding rows' by simp
  ultimately show ?thesis
    using r by (intro exI [of _ "m\<lparr>content := c, coverUrl := u, isPublic := p\<rparr>"] exI [of _ ?st']) simp
qed

theorem put_memories_id_frame_witness:
  "is_uuid id_c \<and>
   bodySchema (Some (JObject fields_min)) = Inr (str ''hello'', str ''http://x/y.png'', False) \<and>
   find (\<lambda>m. id' m = id_c) (rows store0) = Some memory_c \<and> userId memory_c = alice \<and>
   put_memories_id is_uuid store0 alice id_c (Some (JObject fields_min)) =
     (Returned (memory_c\<lparr>content := str ''hello'', coverUrl := str ''http://x/y.png'',
                         isPublic := False\<rparr>),
      \<lparr>rows = [memory_a, memory_b,
                memory_c\<lparr>content := str ''hello'', coverUrl := str ''http://x/y.png'',
                          isPublic := False\<rparr>],
       calls = [FindUniqueOrThrow id_c, Update id_c]\<rparr>) \<and>
   (\<exists>M st'. put_memories_id is_uuid store0 alice id_c (Some (JObject fields_min)) =
        (Returned M, st') \<and>
      content M = str ''hello'' \<and> coverUrl M = str ''http://x/y.png'' \<and> isPublic M = False \<and>
      id' M = id' memory_c \<and> userId M = userId memory_c \<and> createdAt M = createdAt memory_c \<and>
      length (rows st') = length (rows store0) \<and>
      rows st' ! 0 = rows store0 ! 0 \<and> rows st' ! 1 = rows store0 ! 1 \<and>
      id' (rows st' ! 2) = id' (rows store0 ! 2) \<and>
      userId (rows st' ! 2) = userId (rows store0 ! 2) \<and>
      createdAt (rows st' ! 2) = createdAt (rows store0 ! 2) \<and>
      content (rows st' ! 2) = str ''hello'' \<and> isPublic (rows st' ! 2) = False)"
proof -
  have v: "is_uuid id_c" by code_simp
  have b: "bodySchema (Some (JObject fields_min)) =
             Inr (str ''hello'', str ''http://x/y.png'', False)"
    by code_simp
  have f: "find (\<lambda>m. id' m = id_c) (rows store0) = Some memory_c" by code_simp
  have a: "userId memory_c = alice" by code_simp
  have r: "put_memories_id is_uuid store0 alice id_c (Some (JObject fields_min)) =
     (Returned (memory_c\<lparr>content := str ''hello'', coverUrl := str ''http://x/y.png'',
                         isPublic := False\<rparr>),
      \<lparr>rows = [memory_a, memory_b,
                memory_c\<lparr>content := str ''hello'', coverUrl := str ''http://x/y.png'',
                          isPublic := False\<rparr>],
       calls = [FindUniqueOrThrow id_c, Update id_c]\<rparr>)"
    by code_simp
  have l: "length (rows store0) = 3" by code_simp
  have i0: "id' (rows store0 ! 0) \<noteq> id_c" by code_simp
  have i1: "id' (rows store0 ! 1) \<noteq> id_c" by code_simp
  have i2: "id' (rows store0 ! 2) = id_c" by code_simp
  obtain M st' where t:
    "put_memories_id is_uuid store0 alice id_c (Some (JObject fields_min)) = (Returned M, st')"
    "content M = str ''hello''" "coverUrl M = str ''http://x/y.png''" "isPublic M = False"
    "id' M = id' memory_c" "userId M = userId memory_c" "createdAt M = createdAt memory_c"
    "length (rows st') = length (rows store0)"
    "\<forall>k < length (rows store0).
       id' (rows st' ! k) = id' (rows store0 ! k) \<and>
       userId (rows st' ! k) = userId (rows store0 ! k) \<and>
       createdAt (rows st' ! k) = createdAt (rows store0 ! k) \<and>
       (if id' (rows store0 ! k) = id_c
        then content (rows st' ! k) = str ''hello'' \<and>
             coverUrl (rows st' ! k) = str ''http://x/y.png'' \<and>
             isPublic (rows st' ! k) = False
        else rows st' ! k = rows store0 ! k)"
    using put_memories_id_frame [of is_uuid id_c "Some (JObject fields_min)" "str ''hello''"
        "str ''http://x/y.png''" False store0 memory_c alice] v b f a
    by blast
  from t(9) l i0 have k0: "rows st' ! 0 = rows store0 ! 0"
    by (auto dest: spec [of _ 0])
  from t(9) l i1 have k1: "rows st' ! 1 = rows store0 ! 1"
    by (auto dest: spec [of _ 1])
  from t(9) l i2 have k2: "id' (rows st' ! 2) = id' (rows store0 ! 2)"
    "userId (rows st' ! 2) = userId (rows store0 ! 2)"
    "createdAt (rows st' ! 2) = createdAt (rows store0 ! 2)"
    "content (rows st' ! 2) = str ''hello''" "isPublic (rows st' ! 2) = False"
    by (auto dest: spec [of _ 2])
  show ?thesis
    using v b f a r t(1-8) k0 k1 k2 by blast
qed

text \<open>
  C6. When no stored memory has the identifier of the path, GET, PUT and DELETE
  /memories/:id throw and leave the table unchanged. For an identifier of valid format
  (and, for PUT, a valid body) the thrown error is the not-found error of the lookup,
  which no handler catches, and the lookup is the only store call.
\<close>

theorem missing_memory_throws:
  assumes "\<forall>m \<in> set (rows st). id' m \<noteq> i"
  shows "(\<exists>e. fst (get_memories_id uuid st sub i) = Threw e) \<and>
         rows (snd (get_memories_id uuid st sub i)) = rows st \<and>
         (uuid i \<longrightarrow> get_memories_id uuid st sub i =
                       (Threw NotFoundError, logged (FindUniqueOrThrow i) st)) \<and>
         (\<exists>e. fst (put_memories_id uuid st sub i body) = Threw e) \<and>
         rows (snd (put_memories_id uuid st sub i body)) = rows st \<and>
         (uuid i \<and> (\<exists>b. bodySchema body = Inr b) \<longrightarrow>
            put_memories_id uuid st sub i body =
              (Threw NotFoundError, logged (FindUniqueOrThrow i) st)) \<and>
         (\<exists>e. fst (delete_memories_id uuid st sub i) = Threw e) \<and>
         rows (snd (delete_memories_id uuid st sub i)) = rows st \<and>
         (uuid i \<longrightarrow> delete_memories_id uuid st sub i =
                       (Threw NotFoundError, logged (FindUniqueOrThrow i) st))"
proof -
  from assms have none: "find (\<lambda>m. id' m = i) (rows st) = None"
    by (simp add: find_None_iff)
  have g: "(\<exists>e. fst (get_memories_id uuid st sub i) = Threw e) \<and>
           rows (snd (get_memories_id uuid st sub i)) = rows st \<and>
           (uuid i \<longrightarrow> get_memories_id uuid st sub i =
                         (Threw NotFoundError, logged (FindUniqueOrThrow i) st))"
    using none
    by (cases "uuid i")
      (simp_all add: get_memories_id_not_found get_memories_id_invalid_id rows_logged)
  have d: "(\<exists>e. fst (delete_memories_id uuid st sub i) = Threw e) \<and>
           rows (snd (delete_memories_id uuid st sub i)) = rows st \<and>
           (uuid i \<longrightarrow> delete_memories_id uuid st sub i =
                         (Threw NotFoundError, logged (FindUniqueOrThrow i) st))"
    using none
    by (cases "uuid i")
      (simp_all add: delete_memories_id_not_found delete_memories_id_invalid_id rows_logged)
  have p: "(\<exists>e. fst (put_memories_id uuid st sub i body) = Threw e) \<and>
           rows (snd (put_memories_id uuid st sub i body)) = rows st \<and>
           (uuid i \<and> (\<exists>b. bodySchema body = Inr b) \<longrightarrow>
              put_memories_id uuid st sub i body =
                (Threw NotFoundError, logged (FindUniqueOrThrow i) st))"
  proof (cases "bodySchema body")
    case (Inl e)
    then show ?thesis by (simp add: put_memories_id_invalid_body)
  next
    case (Inr b)
    show ?thesis
    proof (cases "uuid i")
      case True
      then show ?thesis
        using Inr none by (simp add: put_memories_id_not_found rows_logged)
    next
      case False
      then show ?thesis by (simp add: put_memories_id_invalid_id)
    qed
  qed
  from g p d show ?thesis by blast
qed

theorem missing_memory_throws_witness:
  "id_new \<notin> set (map id' (rows store0)) \<and> is_uuid id_new \<and>
   bodySchema (Some (JObject fields_min)) = Inr (str ''hello'', str ''http://x/y.png'', False) \<and>
   get_memories_id is_uuid store0 alice id_new =
     (Threw NotFoundError, logged (FindUniqueOrThrow id_new) store0) \<and>
   put_memories_id is_uuid store0 alice id_new (Some (JObject fields_min)) =
     (Threw NotFoundError, logged (FindUniqueOrThrow id_new) store0) \<and>
   delete_memories_id is_uuid store0 alice id_new =
     (Threw NotFoundError, logged (FindUniqueOrThrow id_new) store0) \<and>
   rows (snd (put_memories_id is_uuid store0 alice id_new (Some (JObject fields_min)))) =
     rows store0"
proof -
  have n': "id_new \<notin> set (map id' (rows store0))" by code_simp
  then have n: "\<forall>m \<in> set (rows store0). id' m \<noteq> id_new"
    by (auto simp: image_iff)
  have v: "is_uuid id_new" by code_simp
  have b: "bodySchema (Some (JObject fields_min)) =
             Inr (str ''hello'', str ''http://x/y.png'', False)"
    by code_simp
  show ?thesis
    using missing_memory_throws [OF n, of is_uuid alice "Some (JObject fields_min)"] n' v b
    by blast
qed

text \<open>
  C8, as the claim states it, fails: a request with an invalid path identifier or an
  invalid body is not answered with a client error (a status from 400 to 499). The
  validation error is thrown and nothing catches it, so the response is the same server
  error 500 as for a memory that does not exist.
\<close>

theorem validation_client_error_counterexample:
  "fst (get_memories_id is_uuid store0 alice alice) = Threw (ZodError [invalid_string [''id'']]) \<and>
   status_code (fst (get_memories_id is_uuid store0 alice alice)) = 500 \<and>
   \<not> status_code (fst (get_memories_id is_uuid store0 alice alice)) < 500 \<and>
   fst (post_memories store0 alice (Some (JObject fields_no_cover)) id_new 3000) =
     Threw (ZodError [invalid_type [''coverUrl'']]) \<and>
   status_code (fst (post_memories store0 alice (Some (JObject fields_no_cover)) id_new 3000)) = 500 \<and>
   \<not> status_code (fst (post_memories store0 alice (Some (JObject fields_no_cover)) id_new 3000)) < 500 \<and>
   fst (get_memories_id is_uuid store0 alice id_new) = Threw NotFoundError \<and>
   status_code (fst (get_memories_id is_uuid store0 alice id_new)) = 500"
  by code_simp

text \<open>
  C8, amended. A path identifier that fails the format test makes GET, PUT and DELETE
  /memories/:id throw a validation error; a body that is an object in which
  \<open>content\<close> or \<open>coverUrl\<close> is missing or is not a string, and a body that is no object
  at all, makes POST and PUT throw a validation error. In each case the store is
  exactly as before, its table and its call log untouched, and the error, which nothing
  catches, is answered with the server error 500, not with a client error.
\<close>

theorem validation_throws_before_store:
  "(\<not> uuid i \<longrightarrow>
      (\<exists>issues. get_memories_id uuid st sub i = (Threw (ZodError issues), st)) \<and>
      (\<exists>issues. put_memories_id uuid st sub i body = (Threw (ZodError issues), st)) \<and>
      (\<exists>issues. delete_memories_id uuid st sub i = (Threw (ZodError issues), st)) \<and>
      status_code (fst (get_memories_id uuid st sub i)) = 500 \<and>
      status_code (fst (put_memories_id uuid st sub i body)) = 500 \<and>
      status_code (fst (delete_memories_id uuid st sub i)) = 500) \<and>
   ((\<forall>kvs. body = Some (JObject kvs) \<longrightarrow>
        (\<exists>k \<in> {''content'', ''coverUrl''}. \<forall>s. property kvs k \<noteq> Some (JString s))) \<longrightarrow>
      (\<exists>issues. post_memories st sub body newId now = (Threw (ZodError issues), st)) \<and>
      (\<exists>issues. put_memories_id uuid st sub i body = (Threw (ZodError issues), st)) \<and>
      status_code (fst (post_memories st sub body newId now)) = 500 \<and>
      status_code (fst (put_memories_id uuid st sub i body)) = 500)"
proof (intro conjI impI)
  assume "\<not> uuid i"
  then show "\<exists>issues. get_memories_id uuid st sub i = (Threw (ZodError issues), st)"
    and "\<exists>issues. put_memories_id uuid st sub i body = (Threw (ZodError issues), st)"
    and "\<exists>issues. delete_memories_id uuid st sub i = (Threw (ZodError issues), st)"
    and "status_code (fst (get_memories_id uuid st sub i)) = 500"
    and "status_code (fst (put_memories_id uuid st sub i body)) = 500"
    and "status_code (fst (delete_memories_id uuid st sub i)) = 500"
    by (simp_all add: get_memories_id_invalid_id put_memories_id_invalid_id
        delete_memories_id_invalid_id status_code_def)
next
  assume bad: "\<forall>kvs. body = Some (JObject kvs) \<longrightarrow>
                 (\<exists>k \<in> {''content'', ''coverUrl''}. \<forall>s. property kvs k \<noteq> Some (JString s))"
  have "\<exists>e. bodySchema body = Inl e"
  proof (cases "bodySchema body")
    case (Inl e)
    then show ?thesis by blast
  next
    case (Inr b)
    obtain c u p where "b = (c, u, p)" by (cases b)
    with Inr obtain kvs where "body = Some (JObject kvs)"
      "property kvs ''content'' = Some (JString c)" "property kvs ''coverUrl'' = Some (JString u)"
      by (auto simp: bodySchema_Inr_iff)
    with bad show ?thesis by auto
  qed
  then obtain e where e: "bodySchema body = Inl e" ..
  then obtain issues where i: "e = ZodError issues"
    using bodySchema_Inl_ZodError by blast
  show "\<exists>issues. post_memories st sub body newId now = (Threw (ZodError issues), st)"
    using e i by (simp add: post_memories_invalid_body)
  show "\<exists>issues. put_memories_id uuid st sub i body = (Threw (ZodError issues), st)"
    using e i by (simp add: put_memories_id_invalid_body)
  show "status_code (fst (post_memories st sub body newId now)) = 500"
    using e by (simp add: post_memories_invalid_body status_code_def)
  show "status_code (fst (put_memories_id uuid st sub i body)) = 500"
    using e by (simp add: put_memories_id_invalid_body status_code_def)
qed

theorem validation_throws_before_store_witness:
  "\<not> is_uuid alice \<and> property fields_no_cover ''coverUrl'' = None \<and>
   (\<exists>issues. get_memories_id is_uuid store0 alice alice = (Threw (ZodError issues), store0)) \<and>
   (\<exists>issues. delete_memories_id is_uuid store0 alice alice = (Threw (ZodError issues), store0)) \<and>
   (\<exists>issues. put_memories_id is_uuid store0 alice alice (Some (JObject fields_no_cover)) =
      (Threw (ZodError issues), store0)) \<and>
   (\<exists>issues. post_memories store0 alice (Some (JObject fields_no_cover)) id_new 3000 =
      (Threw (ZodError issues), store0)) \<and>
   status_code (fst (get_memories_id is_uuid store0 alice alice)) = 500 \<and>
   status_code (fst (delete_memories_id is_uuid store0 alice alice)) = 500 \<and>
   status_code (fst (put_memories_id is_uuid store0 alice alice (Some (JObject fields_no_cover)))) =
     500 \<and>
   status_code (fst (post_memories store0 alice (Some (JObject fields_no_cover)) id_new 3000)) =
     500"
proof -
  have v: "\<not> is_uuid alice" by code_simp
  have c: "property fields_no_cover ''coverUrl'' = None" by code_simp
  then have b: "\<forall>kvs. Some (JObject fields_no_cover) = Some (JObject kvs) \<longrightarrow>
      (\<exists>k \<in> {''content'', ''coverUrl''}. \<forall>s. property kvs k \<noteq> Some (JString s))"
    by simp
  show ?thesis
    using validation_throws_before_store [of is_uuid alice store0 alice
        "Some (JObject fields_no_cover)" id_new 3000] v b c
    by blast
qed

text \<open>
  C9. Round trip: when POST /memories by a caller returns the created memory \<open>M\<close> (whose
  store-generated identifier has the valid format), GET /memories/:id by the same caller
  with the identifier of \<open>M\<close> returns \<open>M\<close> itself, and the owner of \<open>M\<close> is the caller.
\<close>

theorem post_then_get_round_trip:
  assumes "post_memories st sub body newId now = (Returned M, st1)" and "uuid (id' M)"
  shows "get_memories_id uuid st1 sub (id' M) =
           (Returned M, logged (FindUniqueOrThrow (id' M)) st1) \<and>
         userId M = sub \<and> id' M = newId \<and> createdAt M = now \<and>
         bodySchema body = Inr (content M, coverUrl M, isPublic M)"
proof -
  from assms(1) obtain c u p where b: "bodySchema body = Inr (c, u, p)"
    by (cases "bodySchema body") (auto simp: post_memories_def)
  from assms(1) b have fresh: "newId \<notin> set (map id' (rows st))"
    by (auto simp: post_memories_def create_def split: if_splits)
  from assms(1) b fresh
  have M: "M = \<lparr>id' = newId, content = c, coverUrl = u, isPublic = p, userId = sub,
               createdAt = now\<rparr>"
    and st1: "st1 = logged Create (st\<lparr>rows := rows st @ [M]\<rparr>)"
    by (auto simp: post_memories_def create_def Let_def)
  have idM: "id' M = newId"
    by (simp add: M)
  have "find (\<lambda>m. id' m = newId) (rows st @ [M]) = Some M"
  proof (rule find_append_fresh)
    show "\<forall>x \<in> set (rows st). \<not> id' x = newId"
      using fresh by (auto simp: image_iff)
    show "id' M = newId" by (rule idM)
  qed
  then have "find (\<lambda>m. id' m = id' M) (rows st1) = Some M"
    by (simp add: st1 rows_logged idM)
  with assms(2) have "get_memories_id uuid st1 sub (id' M) =
      (if \<not> isPublic M \<and> userId M \<noteq> sub then Sent 401 None else Returned M,
       logged (FindUniqueOrThrow (id' M)) st1)"
    by (simp add: get_memories_id_def paramsSchema_def findUniqueOrThrow_Some)
  then show ?thesis
    using b by (simp add: M)
qed

theorem post_then_get_round_trip_witness:
  "post_memories store0 bob (Some (JObject fields_min)) id_new 3000 =
     (Returned \<lparr>id' = id_new, content = str ''hello'', coverUrl = str ''http://x/y.png'',
                isPublic = False, userId = bob, createdAt = 3000\<rparr>,
      \<lparr>rows = [memory_a, memory_b, memory_c,
                \<lparr>id' = id_new, content = str ''hello'', coverUrl = str ''http://x/y.png'',
                  isPublic = False, userId = bob, createdAt = 3000\<rparr>],
       calls = [Create]\<rparr>) \<and>
   is_uuid id_new \<and>
   fst (get_memories_id is_uuid
         \<lparr>rows = [memory_a, memory_b, memory_c,
                   \<lparr>id' = id_new, content = str ''hello'', coverUrl = str ''http://x/y.png'',
                     isPublic = False, userId = bob, createdAt = 3000\<rparr>],
          calls = [Create]\<rparr> bob id_new) =
     Returned \<lparr>id' = id_new, content = str ''hello'', coverUrl = str ''http://x/y.png'',
               isPublic = False, userId = bob, createdAt = 3000\<rparr>"
proof -
  let ?M = "\<lparr>id' = id_new, content = str ''hello'', coverUrl = str ''http://x/y.png'',
             isPublic = False, userId = bob, createdAt = 3000\<rparr>"
  let ?st1 = "\<lparr>rows = [memory_a, memory_b, memory_c, ?M], calls = [Create]\<rparr>"
  have p: "post_memories store0 bob (Some (JObject fields_min)) id_new 3000 = (Returned ?M, ?st1)"
    by code_simp
  have v: "is_uuid id_new" by code_simp
  have v': "is_uuid (id' ?M)" using v by simp
  show ?thesis
    using post_then_get_round_trip [OF p, of is_uuid] p v v' by simp
qed

end
